theory Spec2Isabelle
  imports Complex_Main "HOL-Library.Word"
begin

unbundle bit_operations_syntax

section \<open>Numbers\<close>

text \<open>
  A JavaScript number is an IEEE 754 double. A finite double is modelled as the real it
  denotes; \<open>None\<close> stands for NaN and the two infinities, and is propagated by every
  later operation. A sum, a product or a quotient is the exact result rounded to the
  nearest double, a tie going to the even significand (\<open>fl\<close>); the remainder of two
  doubles, the half of a double and \<^verbatim>\<open>Math.round\<close> of a double are doubles and need no
  rounding. The sign of zero is not modelled.
\<close>

type_synonym number = "real option"

text \<open>The number of binary digits of a natural number.\<close>

fun bit_length :: "nat \<Rightarrow> nat" where
  "bit_length n = (if n = 0 then 0 else Suc (bit_length (n div 2)))"

declare bit_length.simps [simp del]

text \<open>The binary exponent of a real other than zero: the \<open>e\<close> with \<open>2 ^ e \<le> \<bar>x\<bar> < 2 ^ (e + 1)\<close>.\<close>

definition exponent :: "real \<Rightarrow> int" where
  "exponent x =
     (if 1 \<le> \<bar>x\<bar> then int (bit_length (nat \<lfloor>\<bar>x\<bar>\<rfloor>)) - 1
      else - int (bit_length (nat (\<lceil>1 / \<bar>x\<bar>\<rceil> - 1))))"

definition pow2 :: "int \<Rightarrow> real" where
  "pow2 e = (if 0 \<le> e then 2 ^ nat e else 1 / 2 ^ nat (- e))"

text \<open>The nearest integer, a tie going to the even one.\<close>

definition round_half_even :: "real \<Rightarrow> int" where
  "round_half_even m =
     (let f = \<lfloor>m\<rfloor>; d = m - of_int f
      in if d < 1 / 2 then f else if 1 / 2 < d then f + 1 else if even f then f else f + 1)"

text \<open>
  The nearest real with a significand of 53 binary digits and an exponent of at least
  \<open>- 1022\<close>: below \<open>2 ^ (- 1022)\<close> the doubles are the multiples of \<open>2 ^ (- 1074)\<close>.
\<close>

definition round_double :: "real \<Rightarrow> real" where
  "round_double x =
     (let q = max (exponent x) (- 1022) - 52
      in of_int (round_half_even (x / pow2 q)) * pow2 q)"

text \<open>Rounding to a double: a result of magnitude \<open>2 ^ 1024\<close> or more is an infinity.\<close>

definition fl :: "real \<Rightarrow> number" where
  "fl x = (let y = round_double x in if \<bar>y\<bar> < pow2 1024 then Some y else None)"

text \<open>\<^verbatim>\<open>a + b\<close> and \<^verbatim>\<open>a * b\<close> of two finite doubles.\<close>

definition js_add :: "real \<Rightarrow> real \<Rightarrow> number" where
  "js_add a b = fl (a + b)"

definition js_mul :: "real \<Rightarrow> real \<Rightarrow> number" where
  "js_mul a b = fl (a * b)"

text \<open>\<^verbatim>\<open>a / b\<close>: a quotient by zero is an infinity or NaN.\<close>

definition js_div :: "real \<Rightarrow> real \<Rightarrow> number" where
  "js_div a b = (if b = 0 then None else fl (a / b))"

text \<open>\<^verbatim>\<open>Math.round(x)\<close>: the nearest integer, a tie going towards plus infinity.\<close>

definition Math_round :: "real \<Rightarrow> real" where
  "Math_round x = of_int \<lfloor>x + 1 / 2\<rfloor>"

text \<open>The integer part of a quotient, rounded towards zero.\<close>

definition js_trunc :: "real \<Rightarrow> int" where
  "js_trunc x = (if 0 \<le> x then \<lfloor>x\<rfloor> else \<lceil>x\<rceil>)"

text \<open>
  \<^verbatim>\<open>a % b\<close>: the remainder has the sign of the dividend and is exact; \<^verbatim>\<open>a % 0\<close> is NaN.
\<close>

definition js_rem :: "real \<Rightarrow> real \<Rightarrow> number" where
  "js_rem a b = (if b = 0 then None else Some (a - b * of_int (js_trunc (a / b))))"

type_synonym vec2 = "real \<times> real"

section \<open>The composite shader of ColorBlurOutlinePass\<close>

datatype vec3 = Vec3 (v3x: real) (v3y: real) (v3z: real)

datatype vec4 = Vec4 (v4x: real) (v4y: real) (v4z: real) (v4w: real)

definition xyz :: "vec4 \<Rightarrow> vec3" where
  "xyz v = Vec3 (v4x v) (v4y v) (v4z v)"

definition vec3_add :: "vec3 \<Rightarrow> vec3 \<Rightarrow> vec3" where
  "vec3_add a b = Vec3 (v3x a + v3x b) (v3y a + v3y b) (v3z a + v3z b)"

definition vec3_min :: "vec3 \<Rightarrow> vec3 \<Rightarrow> vec3" where
  "vec3_min a b = Vec3 (min (v3x a) (v3x b)) (min (v3y a) (v3y b)) (min (v3z a) (v3z b))"

text \<open>GLSL \<^verbatim>\<open>clamp(x, lo, hi)\<close> is \<^verbatim>\<open>min(max(x, lo), hi)\<close>.\<close>

definition clamp :: "real \<Rightarrow> real \<Rightarrow> real \<Rightarrow> real" where
  "clamp x lo hi = min (max x lo) hi"

text \<open>
  \<^verbatim>\<open>vec4 getOutlineColor(float mask, float blur, vec3 outlineColor)\<close> of the fragment
  shader built by \<^verbatim>\<open>createOutlineMaterial\<close>.
\<close>

definition getOutlineColor :: "real \<Rightarrow> real \<Rightarrow> vec3 \<Rightarrow> vec4" where
  "getOutlineColor mask_ch blur_ch outlineColor =
     (let blurOutline = clamp ((blur_ch - mask_ch) * 2.5) 0 1
      in Vec4 (v3x outlineColor * blurOutline) (v3y outlineColor * blurOutline)
           (v3z outlineColor * blurOutline) blurOutline)"

text \<open>
  \<^verbatim>\<open>void main()\<close> of the same shader. The three texture samples at the pixel
  (\<^verbatim>\<open>texture2D(maskTexture, vUv)\<close> and the two blurs) and the two colour uniforms are
  the arguments; the result is \<^verbatim>\<open>gl_FragColor\<close>. The components r, g are x, y.
\<close>

definition fragment_main :: "vec4 \<Rightarrow> vec4 \<Rightarrow> vec4 \<Rightarrow> vec3 \<Rightarrow> vec3 \<Rightarrow> vec4" where
  "fragment_main maskColor blurColor blurHalfColor hoverOutlineColor selectedOutlineColor =
     (let combinedBlur = vec3_min (vec3_add (xyz blurColor) (xyz blurHalfColor)) (Vec3 1 1 1);
          hover = getOutlineColor (v4x maskColor) (v3x combinedBlur) hoverOutlineColor;
          selected = getOutlineColor (v4y maskColor) (v3y combinedBlur) selectedOutlineColor;
          rgb = vec3_add (xyz hover) (xyz selected)
      in Vec4 (v3x rgb) (v3y rgb) (v3z rgb) (max (v4w hover) (v4w selected)))"

text \<open>
  The composition as the specification words it: the combined blur of a channel is the
  sum of the full-resolution and the half-resolution blur, capped at 1; the edge of a
  channel is \<open>clamp ((blur - mask) * K) 0 1\<close> with \<open>K = 2.5\<close>; the colour of a channel
  is its colour weighted by its edge.
\<close>

definition spec_combined_blur :: "real \<Rightarrow> real \<Rightarrow> real" where
  "spec_combined_blur blur blurHalf = min (blur + blurHalf) 1"

definition spec_edge :: "real \<Rightarrow> real \<Rightarrow> real" where
  "spec_edge blur_c mask_c = max 0 (min 1 ((blur_c - mask_c) * (5 / 2)))"

definition spec_channel_color :: "real \<Rightarrow> vec3 \<Rightarrow> vec3" where
  "spec_channel_color edge color = Vec3 (edge * v3x color) (edge * v3y color) (edge * v3z color)"

section \<open>The highlight tracker: SelectedProductHighlighter\<close>

text \<open>
  An object of the scene is a reference into a store of objects. Of an object the
  tracker uses its layer mask (\<^verbatim>\<open>object.layers\<close>, a 32-bit mask of three.js, which a new
  object has at layer 0 only) and \<^verbatim>\<open>userData.related\<close>, the siblings that highlight with it;
  \<open>None\<close> is a \<^verbatim>\<open>related\<close> that is absent.
\<close>

type_synonym obj_ref = nat

record object3D =
  layers :: "32 word"
  related :: "obj_ref list option"

text \<open>\<^verbatim>\<open>Layers.enable\<close>, \<^verbatim>\<open>Layers.disable\<close> and \<^verbatim>\<open>Layers.set\<close> of three.js.\<close>

definition layers_enable :: "nat \<Rightarrow> 32 word \<Rightarrow> 32 word" where
  "layers_enable channel m = m OR push_bit channel 1"

definition layers_disable :: "nat \<Rightarrow> 32 word \<Rightarrow> 32 word" where
  "layers_disable channel m = m AND NOT (push_bit channel 1)"

definition layers_set :: "nat \<Rightarrow> 32 word" where
  "layers_set channel = push_bit channel 1"

record highlighter =
  hoveredObject :: "obj_ref option"
  selectedObject :: "obj_ref option"
  objects :: "obj_ref \<Rightarrow> object3D"

text \<open>\<^verbatim>\<open>!!(this.hoveredObject || this.selectedObject)\<close>: an object is truthy.\<close>

definition isAnyProductHighlighted :: "highlighter \<Rightarrow> bool" where
  "isAnyProductHighlighted h =
     (case hoveredObject h of
        Some _ \<Rightarrow> True
      | None \<Rightarrow> (case selectedObject h of Some _ \<Rightarrow> True | None \<Rightarrow> False))"

definition areObjectOrRelatedEqual :: "highlighter \<Rightarrow> obj_ref \<Rightarrow> obj_ref \<Rightarrow> bool" where
  "areObjectOrRelatedEqual h a b =
     (if a = b then True
      else (let allA = a # (case related (objects h a) of None \<Rightarrow> [] | Some r \<Rightarrow> r);
                allB = b # (case related (objects h b) of None \<Rightarrow> [] | Some r \<Rightarrow> r)
            in list_ex (\<lambda>a'. list_ex (\<lambda>b'. b' = a') allB) allA))"

text \<open>One step of the loops of \<^verbatim>\<open>enableLayer\<close> and \<^verbatim>\<open>disableLayer\<close>.\<close>

definition update_layers :: "(32 word \<Rightarrow> 32 word) \<Rightarrow> obj_ref \<Rightarrow> highlighter \<Rightarrow> highlighter" where
  "update_layers f ob h =
     h\<lparr>objects := (objects h)(ob := (objects h ob)\<lparr>layers := f (layers (objects h ob))\<rparr>)\<rparr>"

definition enableLayer :: "obj_ref \<Rightarrow> nat \<Rightarrow> highlighter \<Rightarrow> highlighter" where
  "enableLayer ob channel h =
     (let h1 = update_layers (layers_enable channel) ob h
      in case related (objects h1 ob) of
           None \<Rightarrow> h1
         | Some siblings \<Rightarrow> fold (update_layers (layers_enable channel)) siblings h1)"

definition disableLayer :: "obj_ref \<Rightarrow> nat \<Rightarrow> highlighter \<Rightarrow> highlighter" where
  "disableLayer ob channel h =
     (let h1 = update_layers (layers_disable channel) ob h
      in case related (objects h1 ob) of
           None \<Rightarrow> h1
         | Some siblings \<Rightarrow> fold (update_layers (layers_disable channel)) siblings h1)"

definition clearHoverMaterial :: "obj_ref \<Rightarrow> highlighter \<Rightarrow> highlighter" where
  "clearHoverMaterial ob h = disableLayer ob 1 h"

definition setHoverMaterial :: "obj_ref \<Rightarrow> highlighter \<Rightarrow> highlighter" where
  "setHoverMaterial ob h =
     (case selectedObject h of
        None \<Rightarrow> enableLayer ob 1 h
      | Some s \<Rightarrow> if areObjectOrRelatedEqual h ob s then h else enableLayer ob 1 h)"

definition setSelectedMaterial :: "obj_ref \<Rightarrow> highlighter \<Rightarrow> highlighter" where
  "setSelectedMaterial ob h =
     (let h1 = enableLayer ob 2 h
      in case hoveredObject h1 of
           None \<Rightarrow> h1
         | Some hov \<Rightarrow> if areObjectOrRelatedEqual h1 ob hov then clearHoverMaterial hov h1 else h1)"

definition clearSelectedMaterial :: "obj_ref \<Rightarrow> highlighter \<Rightarrow> highlighter" where
  "clearSelectedMaterial ob h =
     (let h1 = disableLayer ob 2 h
      in case hoveredObject h1 of
           None \<Rightarrow> h1
         | Some hov \<Rightarrow> if areObjectOrRelatedEqual h1 ob hov then setHoverMaterial hov h1 else h1)"

text \<open>The four subscriptions of the constructor, one function for each event.\<close>

definition object3DPointerEnter :: "obj_ref \<Rightarrow> highlighter \<Rightarrow> highlighter" where
  "object3DPointerEnter ob h = setHoverMaterial ob (h\<lparr>hoveredObject := Some ob\<rparr>)"

definition object3DPointerLeave :: "obj_ref \<Rightarrow> highlighter \<Rightarrow> highlighter" where
  "object3DPointerLeave ob h = clearHoverMaterial ob (h\<lparr>hoveredObject := None\<rparr>)"

definition object3DSelected :: "obj_ref \<Rightarrow> highlighter \<Rightarrow> highlighter" where
  "object3DSelected ob h =
     (let h1 = (case selectedObject h of None \<Rightarrow> h | Some s \<Rightarrow> clearSelectedMaterial s h)
      in setSelectedMaterial ob (h1\<lparr>selectedObject := Some ob\<rparr>))"

definition object3DDeselected :: "obj_ref \<Rightarrow> highlighter \<Rightarrow> highlighter" where
  "object3DDeselected ob h = clearSelectedMaterial ob (h\<lparr>selectedObject := None\<rparr>)"

text \<open>
  The tracker as the constructor leaves it, over a scene of new objects none of which
  has related siblings.
\<close>

definition new_highlighter :: highlighter where
  "new_highlighter =
     \<lparr>hoveredObject = None, selectedObject = None,
      objects = (\<lambda>_. \<lparr>layers = 1, related = None\<rparr>)\<rparr>"

section \<open>The objects of three.js that the outline pass uses\<close>

text \<open>
  The image of a texture is an \<^verbatim>\<open>HTMLImageElement\<close> or an \<^verbatim>\<open>HTMLCanvasElement\<close>; the
  first number names the element, the other two are \<^verbatim>\<open>naturalWidth\<close> and
  \<^verbatim>\<open>naturalHeight\<close> of an image, \<^verbatim>\<open>width\<close> and \<^verbatim>\<open>height\<close> of a canvas.
\<close>

datatype html_image = HTMLImageElement nat nat nat | HTMLCanvasElement nat nat nat

datatype wrapping = ClampToEdgeWrapping | RepeatWrapping

record texture =
  tex_image :: "html_image option"
  needsUpdate :: bool
  wrapS :: wrapping

type_synonym tex_id = nat

text \<open>
  A render target is one of the five the pass owns, or one of the host's (the buffers of
  the composer, a target given to \<^verbatim>\<open>setColors\<close>), named by a number.
\<close>

datatype rt_ref =
  MaskRT | BlurHorizontalRT | BlurVerticalRT | BlurHorizontalHalfRT | BlurVerticalHalfRT2
  | HostRT nat

text \<open>A texture is a \<^verbatim>\<open>Texture\<close> object of the store, or the texture of a render target.\<close>

datatype tex_ref = TextureObj tex_id | TargetTexture rt_ref

text \<open>
  The type \<^verbatim>\<open>Texture | WebGLRenderTarget\<close> of the two channel fields. Modelled from the
  spec: the type guards \<^verbatim>\<open>isRenderTarget\<close> and \<^verbatim>\<open>isTexture\<close> of is-threejs-type.ts, which
  is not among the sources, tell the two kinds apart; here they are the two constructors.
\<close>

datatype texture_or_target = IsTexture tex_id | IsRenderTarget nat

record render_target =
  rt_width :: real
  rt_height :: real

text \<open>\<^verbatim>\<open>WebGLRenderTarget.setSize\<close> of three.js.\<close>

definition rt_setSize :: "real \<Rightarrow> real \<Rightarrow> render_target \<Rightarrow> render_target" where
  "rt_setSize w h rt = rt\<lparr>rt_width := w, rt_height := h\<rparr>"

record blur_material =
  texSize :: vec2
  kernelRadius :: real
  colorTexture :: "tex_ref option"
  direction :: vec2
  MAX_RADIUS :: real

text \<open>
  Modelled from the spec: \<^verbatim>\<open>createSeperableBlurMaterial\<close> of create-blur-material.ts, which
  is not among the sources. The separable blur material has the parameters \<^verbatim>\<open>texSize\<close>,
  \<^verbatim>\<open>direction\<close>, \<^verbatim>\<open>colorTexture\<close> and a kernel radius derived from the size it is given;
  before the pass sets them they have the values of the blur material of three.js'
  OutlinePass, from which the pass says it is adapted.
\<close>

definition createSeperableBlurMaterial :: "real \<Rightarrow> blur_material" where
  "createSeperableBlurMaterial maxRadius =
     \<lparr>texSize = (1 / 2, 1 / 2), kernelRadius = 1, colorTexture = None,
      direction = (1 / 2, 1 / 2), MAX_RADIUS = maxRadius\<rparr>"

text \<open>
  Modelled from the spec: the enumeration \<^verbatim>\<open>AnimatedTextureBlurOutlineOutputMode\<close>, which
  is not among the sources: Normal and two modes for visualisation.
\<close>

datatype output_mode = Normal | MaskOnly | BlurOnly

record outline_material =
  outputMode :: output_mode
  u_maskTexture :: "tex_ref option"
  u_blurTexture :: "tex_ref option"
  u_blurHalfTexture :: "tex_ref option"
  u_hoverTexture :: tex_ref
  u_selectedTexture :: tex_ref
  u_startU :: number
  u_tileCount :: real

text \<open>
  Modelled from the spec: \<^verbatim>\<open>createOutlineMaterial\<close> of create-outline-material.ts, which is
  not among the sources. It builds the composite shader material from the parameters the
  pass gives it; the uniforms are the ones the pass writes (\<^verbatim>\<open>maskTexture\<close>,
  \<^verbatim>\<open>blurTexture\<close>, \<^verbatim>\<open>blurHalfTexture\<close>, \<^verbatim>\<open>hoverTexture\<close>, \<^verbatim>\<open>selectedTexture\<close>,
  \<^verbatim>\<open>startU\<close>, \<^verbatim>\<open>tileCount\<close>), the three inputs of the blend unbound until a render.
\<close>

definition create_outline_material ::
  "output_mode \<Rightarrow> tex_ref \<Rightarrow> tex_ref \<Rightarrow> real \<Rightarrow> real \<Rightarrow> outline_material" where
  "create_outline_material mode hoverTex selectedTex start tiles =
     \<lparr>outputMode = mode, u_maskTexture = None, u_blurTexture = None, u_blurHalfTexture = None,
      u_hoverTexture = hoverTex, u_selectedTexture = selectedTex,
      u_startU = Some start, u_tileCount = tiles\<rparr>"

datatype material_ref =
  HoverMaskMaterial | SelectedMaskMaterial | BlurMaterial | BlurHalfMaterial
  | OutlineMaterial | MaterialCopy

text \<open>
  What the renderer is asked to draw, in order: a clear of a target, the scene drawn into
  a target with the override material and the camera's layer mask of that moment, the
  full-screen quad drawn into a target with a material. The target \<open>None\<close> is the screen.
\<close>

datatype draw_call =
  ClearCall "rt_ref option"
  | SceneRender "rt_ref option" "material_ref option" "32 word"
  | QuadRender "rt_ref option" "material_ref option"

type_synonym color = nat

record renderer =
  autoClear :: bool
  clearColor :: color
  clearAlpha :: real
  renderTarget :: "rt_ref option"
  stencilTest :: bool
  calls :: "draw_call list"

definition setRenderTarget :: "rt_ref option \<Rightarrow> renderer \<Rightarrow> renderer" where
  "setRenderTarget t r = r\<lparr>renderTarget := t\<rparr>"

definition setClearColor :: "color \<Rightarrow> real \<Rightarrow> renderer \<Rightarrow> renderer" where
  "setClearColor c a r = r\<lparr>clearColor := c, clearAlpha := a\<rparr>"

definition renderer_clear :: "renderer \<Rightarrow> renderer" where
  "renderer_clear r = r\<lparr>calls := calls r @ [ClearCall (renderTarget r)]\<rparr>"

record scene =
  overrideMaterial :: "material_ref option"

record camera =
  camera_layers :: "32 word"

definition renderer_render :: "scene \<Rightarrow> camera \<Rightarrow> renderer \<Rightarrow> renderer" where
  "renderer_render sc cam r =
     r\<lparr>calls := calls r @ [SceneRender (renderTarget r) (overrideMaterial sc) (camera_layers cam)]\<rparr>"

section \<open>The outline pass: AnimatedTextureBlurOutlinePass\<close>

text \<open>
  The fields of the class. \<open>textures\<close> and \<open>next_texture\<close> are the store of the
  \<^verbatim>\<open>Texture\<close> objects the pass has created and the name of the next one;
  \<open>fsQuad_material\<close> is \<^verbatim>\<open>fsQuad.material\<close>, \<open>tDiffuse\<close> is \<^verbatim>\<open>copyUniforms.tDiffuse\<close>.
  The scene, the camera and the tracker are the objects the pass holds references to.
\<close>

record pass =
  maskRenderTarget :: render_target
  blurHorizontalRenderTarget :: render_target
  blurVerticalRenderTarget :: render_target
  blurHorizontalHalfRenderTarget :: render_target
  blurVerticalHalfRenderTarget2 :: render_target
  outlineMaterial :: outline_material
  blurMaterial :: blur_material
  blurHalfMaterial :: blur_material
  fsQuad_material :: "material_ref option"
  tDiffuse :: "tex_ref option"
  edgeThickness :: real
  edgeGlow :: real
  startU :: real
  tileCount :: real
  animateOutline :: bool
  interval :: real
  elapsed :: number
  tempOldClearColor :: color
  hoverTexture :: texture_or_target
  selectedTexture :: texture_or_target
  textures :: "tex_id \<Rightarrow> texture"
  next_texture :: tex_id
  renderToScreen :: bool
  scene :: scene
  camera :: camera
  selectedProductHighlighter :: highlighter

text \<open>The fields that are declared \<^verbatim>\<open>readonly\<close> with a value.\<close>

definition downsampleResolution :: real where
  "downsampleResolution = 2"

definition maskClearColor :: color where
  "maskClearColor = 0x000000"

definition blurHorizontalDirection :: vec2 where
  "blurHorizontalDirection = (1, 0)"

definition blurVerticalDirection :: vec2 where
  "blurVerticalDirection = (0, 1)"

text \<open>\<^verbatim>\<open>AnimatedTextureBlurOutlineOptions\<close>: every field may be left out.\<close>

record options =
  opt_edgeThickness :: "real option"
  opt_edgeGlow :: "real option"
  opt_startU :: "real option"
  opt_tileCount :: "real option"
  opt_animateOutline :: "bool option"
  opt_animationInterval :: "real option"

text \<open>\<^verbatim>\<open>a ?? b\<close>\<close>

definition nullish :: "'a option \<Rightarrow> 'a \<Rightarrow> 'a" where
  "nullish a b = (case a of None \<Rightarrow> b | Some v \<Rightarrow> v)"

text \<open>
  \<^verbatim>\<open>setOptions\<close> up to its test of \<^verbatim>\<open>this.outlineMaterial\<close>: the assignments to the
  fields, one after the other. The constructor calls \<^verbatim>\<open>setOptions\<close> before it builds the
  material, and the method returns there. The quotient of a double by 1000 is rounded
  and cannot be an infinity.
\<close>

definition setOptions_fields :: "options \<Rightarrow> pass \<Rightarrow> pass" where
  "setOptions_fields opts p =
     (let p1 = p\<lparr>edgeThickness := nullish (opt_edgeThickness opts) (edgeThickness p)\<rparr>;
          p2 = p1\<lparr>edgeGlow := nullish (opt_edgeGlow opts) (edgeThickness p1)\<rparr>;
          p3 = p2\<lparr>startU := nullish (opt_startU opts) (startU p2)\<rparr>;
          p4 = p3\<lparr>tileCount := nullish (opt_tileCount opts) (tileCount p3)\<rparr>;
          p5 = p4\<lparr>animateOutline := nullish (opt_animateOutline opts) (animateOutline p4)\<rparr>
      in case opt_animationInterval opts of
           None \<Rightarrow> p5
         | Some ms \<Rightarrow> p5\<lparr>interval := round_double (ms / 1000)\<rparr>)"

text \<open>\<^verbatim>\<open>setOptions\<close> on a pass that has its material, as every pass has after its constructor.\<close>

definition setOptions :: "options \<Rightarrow> pass \<Rightarrow> pass" where
  "setOptions opts p =
     (let p1 = setOptions_fields opts p;
          p2 = p1\<lparr>outlineMaterial := (outlineMaterial p1)\<lparr>u_tileCount := tileCount p1\<rparr>\<rparr>
      in if \<not> animateOutline p2
         then p2\<lparr>elapsed := Some 0,
                 outlineMaterial := (outlineMaterial p2)\<lparr>u_startU := Some (startU p2)\<rparr>\<rparr>
         else p2)"

definition setSize :: "real \<Rightarrow> real \<Rightarrow> pass \<Rightarrow> pass" where
  "setSize width height p =
     (let p1 = p\<lparr>maskRenderTarget := rt_setSize width height (maskRenderTarget p)\<rparr>;
          resX = Math_round (width / downsampleResolution);
          resY = Math_round (height / downsampleResolution);
          p2 = p1\<lparr>blurHorizontalRenderTarget := rt_setSize resX resY (blurHorizontalRenderTarget p1)\<rparr>;
          p3 = p2\<lparr>blurMaterial := (blurMaterial p2)\<lparr>texSize := (resX, resY)\<rparr>\<rparr>;
          resX2 = Math_round (resX / 2);
          resY2 = Math_round (resY / 2);
          p4 = p3\<lparr>blurHorizontalHalfRenderTarget :=
                      rt_setSize resX2 resY2 (blurHorizontalHalfRenderTarget p3)\<rparr>
      in p4\<lparr>blurHalfMaterial := (blurHalfMaterial p4)\<lparr>texSize := (resX2, resY2)\<rparr>\<rparr>)"

subsection \<open>The textures of the two channels\<close>

datatype texture_key = HoverTextureKey | SelectedTextureKey

text \<open>\<^verbatim>\<open>this[key]\<close>, \<^verbatim>\<open>this[key] = v\<close> and \<^verbatim>\<open>this.outlineMaterial.uniforms[key].value = t\<close>.\<close>

definition get_key :: "texture_key \<Rightarrow> pass \<Rightarrow> texture_or_target" where
  "get_key key p = (case key of HoverTextureKey \<Rightarrow> hoverTexture p | SelectedTextureKey \<Rightarrow> selectedTexture p)"

definition set_key :: "texture_key \<Rightarrow> texture_or_target \<Rightarrow> pass \<Rightarrow> pass" where
  "set_key key v p =
     (case key of HoverTextureKey \<Rightarrow> p\<lparr>hoverTexture := v\<rparr> | SelectedTextureKey \<Rightarrow> p\<lparr>selectedTexture := v\<rparr>)"

definition get_uniform :: "texture_key \<Rightarrow> pass \<Rightarrow> tex_ref" where
  "get_uniform key p =
     (case key of HoverTextureKey \<Rightarrow> u_hoverTexture (outlineMaterial p)
      | SelectedTextureKey \<Rightarrow> u_selectedTexture (outlineMaterial p))"

definition set_uniform :: "texture_key \<Rightarrow> tex_ref \<Rightarrow> pass \<Rightarrow> pass" where
  "set_uniform key t p =
     (case key of
        HoverTextureKey \<Rightarrow> p\<lparr>outlineMaterial := (outlineMaterial p)\<lparr>u_hoverTexture := t\<rparr>\<rparr>
      | SelectedTextureKey \<Rightarrow> p\<lparr>outlineMaterial := (outlineMaterial p)\<lparr>u_selectedTexture := t\<rparr>\<rparr>)"

text \<open>\<^verbatim>\<open>createNewTexture\<close>: a new \<^verbatim>\<open>Texture\<close> without an image, wrapping horizontally.\<close>

definition createNewTexture :: "pass \<Rightarrow> tex_id \<times> pass" where
  "createNewTexture p =
     (next_texture p,
      p\<lparr>textures := (textures p)(next_texture p :=
            \<lparr>tex_image = None, needsUpdate = False, wrapS = RepeatWrapping\<rparr>),
        next_texture := Suc (next_texture p)\<rparr>)"

definition createAndSetTexture :: "texture_key \<Rightarrow> pass \<Rightarrow> tex_id \<times> pass" where
  "createAndSetTexture key p =
     (let (t, p1) = createNewTexture p;
          p2 = set_uniform key (TextureObj t) p1
      in (t, set_key key (IsTexture t) p2))"

definition getTextureDimensions :: "html_image option \<Rightarrow> nat \<times> nat" where
  "getTextureDimensions img =
     (case img of
        None \<Rightarrow> (0, 0)
      | Some (HTMLCanvasElement _ w h) \<Rightarrow> (w, h)
      | Some (HTMLImageElement _ nw nh) \<Rightarrow> (nw, nh))"

definition setTextureRenderTarget :: "texture_key \<Rightarrow> nat \<Rightarrow> pass \<Rightarrow> pass" where
  "setTextureRenderTarget key renderTarget' p =
     (if get_key key p = IsRenderTarget renderTarget' then p
      else set_uniform key (TargetTexture (HostRT renderTarget'))
             (set_key key (IsRenderTarget renderTarget') p))"

definition setTextureTexture :: "texture_key \<Rightarrow> html_image \<Rightarrow> pass \<Rightarrow> pass" where
  "setTextureTexture key img p =
     (case get_key key p of
        IsRenderTarget _ \<Rightarrow> snd (createAndSetTexture key p)
      | IsTexture t0 \<Rightarrow>
          (let (t, p1) =
                 (case tex_image (textures p t0) of
                    None \<Rightarrow> (t0, p)
                  | Some old \<Rightarrow>
                      if getTextureDimensions (Some old) \<noteq> getTextureDimensions (Some img)
                      then createAndSetTexture key p else (t0, p))
           in p1\<lparr>textures := (textures p1)(t :=
                   (textures p1 t)\<lparr>tex_image := Some img, needsUpdate := True\<rparr>)\<rparr>))"

text \<open>What \<^verbatim>\<open>setColors\<close> is given for a channel: an image or canvas, or a render target.\<close>

datatype texture_source = ImageSource html_image | TargetSource nat

definition setTexture :: "texture_key \<Rightarrow> texture_source \<Rightarrow> pass \<Rightarrow> pass" where
  "setTexture key src p =
     (case src of
        TargetSource rt \<Rightarrow> setTextureRenderTarget key rt p
      | ImageSource img \<Rightarrow> setTextureTexture key img p)"

record colors =
  hover :: "texture_source option"
  selected :: "texture_source option"

definition setColors :: "colors \<Rightarrow> pass \<Rightarrow> pass" where
  "setColors cs p =
     (let p1 = (case hover cs of None \<Rightarrow> p | Some src \<Rightarrow> setTexture HoverTextureKey src p)
      in case selected cs of None \<Rightarrow> p1 | Some src \<Rightarrow> setTexture SelectedTextureKey src p1)"

text \<open>
  The texture a channel field stands for in the shader:
  \<^verbatim>\<open>(this.hoverTexture as WebGLRenderTarget)?.texture || this.hoverTexture\<close>.
\<close>

definition texture_of :: "texture_or_target \<Rightarrow> tex_ref" where
  "texture_of v = (case v of IsRenderTarget n \<Rightarrow> TargetTexture (HostRT n) | IsTexture t \<Rightarrow> TextureObj t)"

definition createOutlineMaterial :: "output_mode \<Rightarrow> pass \<Rightarrow> outline_material" where
  "createOutlineMaterial mode p =
     create_outline_material mode (texture_of (hoverTexture p)) (texture_of (selectedTexture p))
       (startU p) (tileCount p)"

definition setOutputMode :: "output_mode \<Rightarrow> pass \<Rightarrow> pass" where
  "setOutputMode mode p = p\<lparr>outlineMaterial := createOutlineMaterial mode p\<rparr>"

subsection \<open>Rendering\<close>

definition initBlurRenderTargetsAndMaterials :: "vec2 \<Rightarrow> pass \<Rightarrow> pass" where
  "initBlurRenderTargetsAndMaterials resolution p =
     (let resX = Math_round (fst resolution / downsampleResolution);
          resY = Math_round (snd resolution / downsampleResolution);
          p1 = p\<lparr>blurHorizontalRenderTarget := \<lparr>rt_width = resX, rt_height = resY\<rparr>,
                 blurVerticalRenderTarget := \<lparr>rt_width = resX, rt_height = resY\<rparr>\<rparr>;
          p2 = p1\<lparr>blurMaterial :=
                  (createSeperableBlurMaterial (edgeThickness p1))
                    \<lparr>texSize := (resX, resY), kernelRadius := 1\<rparr>\<rparr>;
          resX2 = Math_round (resX / 2);
          resY2 = Math_round (resY / 2);
          p3 = p2\<lparr>blurHorizontalHalfRenderTarget := \<lparr>rt_width = resX2, rt_height = resY2\<rparr>,
                  blurVerticalHalfRenderTarget2 := \<lparr>rt_width = resX2, rt_height = resY2\<rparr>\<rparr>
      in p3\<lparr>blurHalfMaterial :=
              (createSeperableBlurMaterial (edgeGlow p3))
                \<lparr>texSize := (resX2, resY2), kernelRadius := edgeGlow p3\<rparr>\<rparr>)"

definition shouldRenderOutline :: "pass \<Rightarrow> bool" where
  "shouldRenderOutline p = isAnyProductHighlighted (selectedProductHighlighter p)"

text \<open>\<^verbatim>\<open>this.fsQuad.render(renderer)\<close>\<close>

definition fsQuad_render :: "renderer \<Rightarrow> pass \<Rightarrow> renderer" where
  "fsQuad_render r p = r\<lparr>calls := calls r @ [QuadRender (renderTarget r) (fsQuad_material p)]\<rparr>"

definition renderMaskTexture :: "renderer \<Rightarrow> pass \<Rightarrow> renderer \<times> pass" where
  "renderMaskTexture r p =
     (let r1 = renderer_clear (setRenderTarget (Some MaskRT) r);
          p1 = p\<lparr>scene := (scene p)\<lparr>overrideMaterial := Some HoverMaskMaterial\<rparr>\<rparr>;
          p2 = p1\<lparr>camera := (camera p1)\<lparr>camera_layers := layers_set 1\<rparr>\<rparr>;
          r2 = renderer_render (scene p2) (camera p2) r1;
          p3 = p2\<lparr>scene := (scene p2)\<lparr>overrideMaterial := Some SelectedMaskMaterial\<rparr>\<rparr>;
          p4 = p3\<lparr>camera := (camera p3)\<lparr>camera_layers := layers_set 2\<rparr>\<rparr>;
          r3 = renderer_render (scene p4) (camera p4) r2;
          p5 = p4\<lparr>camera := (camera p4)\<lparr>camera_layers := layers_set 0\<rparr>\<rparr>
      in (r3, p5\<lparr>scene := (scene p5)\<lparr>overrideMaterial := None\<rparr>\<rparr>))"

definition renderBlurTexture :: "renderer \<Rightarrow> pass \<Rightarrow> renderer \<times> pass" where
  "renderBlurTexture r p =
     (let r1 = renderer_clear (setRenderTarget (Some BlurHorizontalRT) r);
          p1 = p\<lparr>fsQuad_material := Some BlurMaterial\<rparr>;
          p2 = p1\<lparr>blurMaterial := (blurMaterial p1)
                  \<lparr>colorTexture := Some (TargetTexture MaskRT), direction := blurHorizontalDirection\<rparr>\<rparr>;
          r2 = fsQuad_render r1 p2;
          r3 = renderer_clear (setRenderTarget (Some BlurVerticalRT) r2);
          p3 = p2\<lparr>blurMaterial := (blurMaterial p2)
                  \<lparr>colorTexture := Some (TargetTexture BlurHorizontalRT), direction := blurVerticalDirection\<rparr>\<rparr>
      in (fsQuad_render r3 p3, p3))"

definition renderBlurHalfTexture :: "renderer \<Rightarrow> pass \<Rightarrow> renderer \<times> pass" where
  "renderBlurHalfTexture r p =
     (let r1 = renderer_clear (setRenderTarget (Some BlurHorizontalHalfRT) r);
          p1 = p\<lparr>fsQuad_material := Some BlurHalfMaterial\<rparr>;
          p2 = p1\<lparr>blurHalfMaterial := (blurHalfMaterial p1)
                  \<lparr>colorTexture := Some (TargetTexture MaskRT), direction := blurHorizontalDirection\<rparr>\<rparr>;
          r2 = fsQuad_render r1 p2;
          r3 = renderer_clear (setRenderTarget (Some BlurVerticalHalfRT2) r2);
          p3 = p2\<lparr>blurHalfMaterial := (blurHalfMaterial p2)
                  \<lparr>colorTexture := Some (TargetTexture BlurHorizontalHalfRT), direction := blurVerticalDirection\<rparr>\<rparr>
      in (fsQuad_render r3 p3, p3))"

text \<open>
  \<^verbatim>\<open>this.startU + this.tileCount * (this.elapsed / this.interval)\<close>: the quotient, the
  product and the sum are rounded one after the other. The value is not a finite number
  when \<^verbatim>\<open>elapsed\<close> is not or \<^verbatim>\<open>interval\<close> is zero.
\<close>

definition scroll_offset :: "pass \<Rightarrow> number" where
  "scroll_offset p =
     (case elapsed p of
        None \<Rightarrow> None
      | Some e \<Rightarrow>
          (case js_div e (interval p) of
             None \<Rightarrow> None
           | Some progress \<Rightarrow>
               (case js_mul (tileCount p) progress of
                  None \<Rightarrow> None
                | Some scrolled \<Rightarrow> js_add (startU p) scrolled)))"

definition renderOutline :: "renderer \<Rightarrow> rt_ref \<Rightarrow> pass \<Rightarrow> renderer \<times> pass" where
  "renderOutline r readBuffer p =
     (if \<not> shouldRenderOutline p then (r, p)
      else
        (let oldAutoClear = autoClear r;
             oldClearAlpha = clearAlpha r;
             p1 = p\<lparr>tempOldClearColor := clearColor r\<rparr>;
             r1 = setClearColor maskClearColor 0 r;
             r2 = r1\<lparr>autoClear := False\<rparr>;
             (r3, p2) = renderMaskTexture r2 p1;
             (r4, p3) = renderBlurTexture r3 p2;
             (r5, p4) = renderBlurHalfTexture r4 p3;
             p5 = p4\<lparr>fsQuad_material := Some OutlineMaterial\<rparr>;
             p6 = p5\<lparr>outlineMaterial := (outlineMaterial p5)
                     \<lparr>u_maskTexture := Some (TargetTexture MaskRT),
                      u_blurTexture := Some (TargetTexture BlurVerticalRT),
                      u_blurHalfTexture := Some (TargetTexture BlurVerticalHalfRT2)\<rparr>\<rparr>;
             p7 = (if animateOutline p6
                   then p6\<lparr>outlineMaterial := (outlineMaterial p6)\<lparr>u_startU := scroll_offset p6\<rparr>\<rparr>
                   else p6);
             r6 = fsQuad_render (setRenderTarget (Some readBuffer) r5) p7;
             r7 = r6\<lparr>autoClear := oldAutoClear\<rparr>
         in (setClearColor (tempOldClearColor p7) oldClearAlpha r7, p7)))"

text \<open>
  \<^verbatim>\<open>(this.elapsed + deltaTime) % this.interval\<close>: the sum is rounded, and the remainder
  of an infinite sum is NaN.
\<close>

definition advance_elapsed :: "real \<Rightarrow> pass \<Rightarrow> number" where
  "advance_elapsed deltaTime p =
     (case elapsed p of
        None \<Rightarrow> None
      | Some e \<Rightarrow>
          (case js_add e deltaTime of
             None \<Rightarrow> None
           | Some s \<Rightarrow> js_rem s (interval p)))"

definition render :: "renderer \<Rightarrow> rt_ref \<Rightarrow> rt_ref \<Rightarrow> real \<Rightarrow> bool \<Rightarrow> pass \<Rightarrow> renderer \<times> pass" where
  "render r writeBuffer readBuffer deltaTime maskActive p =
     (let p1 = p\<lparr>elapsed := advance_elapsed deltaTime p\<rparr>;
          (r1, p2) = renderOutline r readBuffer p1;
          r2 = (if maskActive then r1\<lparr>stencilTest := True\<rparr> else r1)
      in if renderToScreen p2
         then (let p3 = p2\<lparr>fsQuad_material := Some MaterialCopy\<rparr>;
                   p4 = p3\<lparr>tDiffuse := Some (TargetTexture readBuffer)\<rparr>
               in (fsQuad_render (setRenderTarget None r2) p4, p4))
         else (r2, p2))"




subsection \<open>The constructor\<close>

text \<open>
  The fields as their declarations initialise them. A field that is declared without a
  value holds a blank here until the constructor assigns it; \<^verbatim>\<open>new Color()\<close> is white,
  \<^verbatim>\<open>renderToScreen\<close> is false in a new \<^verbatim>\<open>Pass\<close> and a new \<^verbatim>\<open>FullScreenQuad\<close> has no
  material.
\<close>

definition blank_target :: render_target where
  "blank_target = \<lparr>rt_width = 0, rt_height = 0\<rparr>"

definition declared_fields :: "highlighter \<Rightarrow> scene \<Rightarrow> camera \<Rightarrow> pass" where
  "declared_fields hl sc cam =
     \<lparr>maskRenderTarget = blank_target,
      blurHorizontalRenderTarget = blank_target,
      blurVerticalRenderTarget = blank_target,
      blurHorizontalHalfRenderTarget = blank_target,
      blurVerticalHalfRenderTarget2 = blank_target,
      outlineMaterial = create_outline_material Normal (TextureObj 0) (TextureObj 0) 0 1,
      blurMaterial = createSeperableBlurMaterial 1,
      blurHalfMaterial = createSeperableBlurMaterial 1,
      fsQuad_material = None,
      tDiffuse = None,
      edgeThickness = 1,
      edgeGlow = 2,
      startU = 0,
      tileCount = 1,
      animateOutline = True,
      interval = 60,
      elapsed = Some 0,
      tempOldClearColor = 0xffffff,
      hoverTexture = IsTexture 0,
      selectedTexture = IsTexture 0,
      textures = (\<lambda>_. \<lparr>tex_image = None, needsUpdate = False, wrapS = ClampToEdgeWrapping\<rparr>),
      next_texture = 0,
      renderToScreen = False,
      scene = sc,
      camera = cam,
      selectedProductHighlighter = hl\<rparr>"

definition new_pass :: "highlighter \<Rightarrow> vec2 \<Rightarrow> scene \<Rightarrow> camera \<Rightarrow> options \<Rightarrow> pass" where
  "new_pass hl resolution sc cam opts =
     (let p1 = setOptions_fields opts (declared_fields hl sc cam);
          p2 = p1\<lparr>maskRenderTarget := \<lparr>rt_width = fst resolution, rt_height = snd resolution\<rparr>\<rparr>;
          (t1, p3) = createNewTexture p2;
          p4 = p3\<lparr>hoverTexture := IsTexture t1\<rparr>;
          (t2, p5) = createNewTexture p4;
          p6 = p5\<lparr>selectedTexture := IsTexture t2\<rparr>;
          p7 = p6\<lparr>outlineMaterial := createOutlineMaterial Normal p6\<rparr>
      in initBlurRenderTargetsAndMaterials resolution p7)"

subsection \<open>A pass and a renderer to run the methods on\<close>

definition no_options :: options where
  "no_options =
     \<lparr>opt_edgeThickness = None, opt_edgeGlow = None, opt_startU = None, opt_tileCount = None,
      opt_animateOutline = None, opt_animationInterval = None\<rparr>"

text \<open>The pass of a canvas of 800 by 600 pixels, built without options, nothing highlighted.\<close>

definition pass0 :: pass where
  "pass0 =
     new_pass new_highlighter (800, 600) \<lparr>overrideMaterial = None\<rparr> \<lparr>camera_layers = 1\<rparr> no_options"

definition renderer0 :: renderer where
  "renderer0 =
     \<lparr>autoClear = True, clearColor = 0x336699, clearAlpha = 1, renderTarget = None,
      stencilTest = False, calls = []\<rparr>"


text \<open>The pass after the animation has been turned off.\<close>

definition pass_static :: pass where
  "pass_static = setOptions (no_options\<lparr>opt_animateOutline := Some False\<rparr>) pass0"

text \<open>The pass after the interval of the animation has been set to 100 ms.\<close>

definition pass_100ms :: pass where
  "pass_100ms = setOptions (no_options\<lparr>opt_animationInterval := Some 100\<rparr>) pass0"

text \<open>The tracker after the pointer has entered object 0.\<close>

definition hovering :: highlighter where
  "hovering = object3DPointerEnter 0 new_highlighter"



text \<open>
  The hover channel given an image, then a render target of the host, then a canvas of
  the same size as the image.
\<close>

definition image_A :: html_image where
  "image_A = HTMLImageElement 1 256 1"

definition canvas_B :: html_image where
  "canvas_B = HTMLCanvasElement 2 256 1"

definition pass_image :: pass where
  "pass_image = setColors \<lparr>hover = Some (ImageSource image_A), selected = None\<rparr> pass0"

definition pass_target :: pass where
  "pass_target = setColors \<lparr>hover = Some (TargetSource 7), selected = None\<rparr> pass_image"

definition pass_image_again :: pass where
  "pass_image_again = setColors \<lparr>hover = Some (ImageSource canvas_B), selected = None\<rparr> pass_target"

section \<open>Evaluation of the pass and the renderer above\<close>

lemmas pass0_defs = pass0_def new_pass_def declared_fields_def setOptions_fields_def no_options_def
  createNewTexture_def createOutlineMaterial_def create_outline_material_def texture_of_def
  initBlurRenderTargetsAndMaterials_def createSeperableBlurMaterial_def nullish_def
  downsampleResolution_def Math_round_def blank_target_def new_highlighter_def Let_def

lemmas highlighter_defs = object3DSelected_def object3DPointerEnter_def object3DDeselected_def
  object3DPointerLeave_def new_highlighter_def setHoverMaterial_def setSelectedMaterial_def
  clearSelectedMaterial_def clearHoverMaterial_def enableLayer_def disableLayer_def
  update_layers_def areObjectOrRelatedEqual_def layers_enable_def layers_disable_def Let_def

lemmas texture_defs = setColors_def setTexture_def setTextureTexture_def setTextureRenderTarget_def
  createAndSetTexture_def get_key_def set_key_def set_uniform_def getTextureDimensions_def split_def

lemmas render_steps = renderMaskTexture_def renderBlurTexture_def renderBlurHalfTexture_def
  fsQuad_render_def setRenderTarget_def setClearColor_def renderer_clear_def renderer_render_def

lemma pass0_idle: "\<not> shouldRenderOutline pass0"
  by (simp add: shouldRenderOutline_def isAnyProductHighlighted_def pass0_defs)

lemma hovering_highlighted: "isAnyProductHighlighted hovering"
  by (simp add: isAnyProductHighlighted_def hovering_def object3DPointerEnter_def
        setHoverMaterial_def enableLayer_def update_layers_def new_highlighter_def)

section \<open>The composite shader\<close>

lemma clamp_spec_edge: "clamp ((b - m) * 2.5) 0 1 = spec_edge b m"
  by (simp add: clamp_def spec_edge_def max_def min_def)

lemma getOutlineColor_edge:
  "getOutlineColor m b c =
     (let e = spec_edge b m in Vec4 (e * v3x c) (e * v3y c) (e * v3z c) e)"
  unfolding getOutlineColor_def clamp_spec_edge Let_def by (simp only: mult.commute)

lemma spec_edge_range: "0 \<le> spec_edge b m \<and> spec_edge b m \<le> 1"
  by (simp add: spec_edge_def)

text \<open>
  Claim C9. At every pixel the composite shader of ColorBlurOutlinePass computes, for
  the hover channel (red) and the selected channel (green), the edge
  \<open>clamp ((blur - mask) * 2.5) 0 1\<close> of the channel from its combined blur, the sum of
  the full-resolution and the half-resolution blur capped at 1; the colour it writes is
  the sum of the two colours, each weighted by the edge of its channel, and the alpha it
  writes is the greater of the two edges.
\<close>

theorem fragment_main_composite:
  "fragment_main maskColor blurColor blurHalfColor hoverOutlineColor selectedOutlineColor =
     (let edge_hover = spec_edge (spec_combined_blur (v4x blurColor) (v4x blurHalfColor)) (v4x maskColor);
          edge_selected = spec_edge (spec_combined_blur (v4y blurColor) (v4y blurHalfColor)) (v4y maskColor);
          h = spec_channel_color edge_hover hoverOutlineColor;
          s = spec_channel_color edge_selected selectedOutlineColor
      in Vec4 (v3x h + v3x s) (v3y h + v3y s) (v3z h + v3z s) (max edge_hover edge_selected))"
  by (simp add: fragment_main_def getOutlineColor_edge spec_combined_blur_def
        spec_channel_color_def vec3_min_def vec3_add_def xyz_def Let_def)

section \<open>Resizing\<close>

lemma setSize_fields:
  "maskRenderTarget (setSize w h p) = rt_setSize w h (maskRenderTarget p)"
  "blurHorizontalRenderTarget (setSize w h p) =
     rt_setSize (Math_round (w / 2)) (Math_round (h / 2)) (blurHorizontalRenderTarget p)"
  "blurHorizontalHalfRenderTarget (setSize w h p) =
     rt_setSize (Math_round (Math_round (w / 2) / 2)) (Math_round (Math_round (h / 2) / 2))
       (blurHorizontalHalfRenderTarget p)"
  "texSize (blurMaterial (setSize w h p)) = (Math_round (w / 2), Math_round (h / 2))"
  "texSize (blurHalfMaterial (setSize w h p)) =
     (Math_round (Math_round (w / 2) / 2), Math_round (Math_round (h / 2) / 2))"
  by (simp_all add: setSize_def Let_def downsampleResolution_def)

text \<open>\<^verbatim>\<open>setSize\<close> has no line for the two vertical blur targets.\<close>

lemma setSize_vertical_targets:
  "blurVerticalRenderTarget (setSize w h p) = blurVerticalRenderTarget p"
  "blurVerticalHalfRenderTarget2 (setSize w h p) = blurVerticalHalfRenderTarget2 p"
  by (simp_all add: setSize_def Let_def)

lemma setSize_idem: "setSize w h (setSize w h p) = setSize w h p"
  by (simp add: setSize_def Let_def rt_setSize_def)

lemma Math_round_nonpos: "x \<le> 0 \<Longrightarrow> Math_round (x / 2) \<le> 0"
  by (simp add: Math_round_def floor_le_iff)

text \<open>
  Claim C1, as amended. For every positive width \<open>w\<close> and height \<open>h\<close>, \<^verbatim>\<open>setSize(w, h)\<close>
  sets the mask target to \<open>(w, h)\<close>, the full-resolution horizontal blur target and
  the texel size of the full-resolution blur to \<open>(round (w / 2), round (h / 2))\<close>, and
  the half-resolution horizontal blur target and the texel size of the half-resolution
  blur to the rounded halves of those, \<open>(round (round (w / 2) / 2), round (round (h / 2) / 2))\<close>,
  whatever the sizes were before; a second call with the same inputs changes nothing.
\<close>

theorem setSize_dimensions:
  assumes "0 < w" and "0 < h"
  shows "maskRenderTarget (setSize w h p) = \<lparr>rt_width = w, rt_height = h\<rparr>
    \<and> blurHorizontalRenderTarget (setSize w h p) =
         \<lparr>rt_width = Math_round (w / 2), rt_height = Math_round (h / 2)\<rparr>
    \<and> texSize (blurMaterial (setSize w h p)) = (Math_round (w / 2), Math_round (h / 2))
    \<and> blurHorizontalHalfRenderTarget (setSize w h p) =
         \<lparr>rt_width = Math_round (Math_round (w / 2) / 2),
          rt_height = Math_round (Math_round (h / 2) / 2)\<rparr>
    \<and> texSize (blurHalfMaterial (setSize w h p)) =
         (Math_round (Math_round (w / 2) / 2), Math_round (Math_round (h / 2) / 2))
    \<and> setSize w h (setSize w h p) = setSize w h p"
proof -
  let ?p' = "setSize w h p"
  have mask: "maskRenderTarget ?p' = \<lparr>rt_width = w, rt_height = h\<rparr>"
    by (simp add: setSize_fields rt_setSize_def)
  have full: "blurHorizontalRenderTarget ?p' =
      \<lparr>rt_width = Math_round (w / 2), rt_height = Math_round (h / 2)\<rparr>"
    by (simp add: setSize_fields rt_setSize_def)
  have half: "blurHorizontalHalfRenderTarget ?p' =
      \<lparr>rt_width = Math_round (Math_round (w / 2) / 2),
       rt_height = Math_round (Math_round (h / 2) / 2)\<rparr>"
    by (simp add: setSize_fields rt_setSize_def)
  have texel: "texSize (blurMaterial ?p') = (Math_round (w / 2), Math_round (h / 2))"
    "texSize (blurHalfMaterial ?p') =
       (Math_round (Math_round (w / 2) / 2), Math_round (Math_round (h / 2) / 2))"
    by (simp_all add: setSize_fields)
  have again: "setSize w h ?p' = ?p'"
    by (rule setSize_idem)
  from mask full half texel again show ?thesis by simp
qed

theorem setSize_dimensions_witness:
  "(0::real) < 1024 \<and> (0::real) < 768
   \<and> maskRenderTarget (setSize 1024 768 pass0) = \<lparr>rt_width = 1024, rt_height = 768\<rparr>
   \<and> blurHorizontalRenderTarget (setSize 1024 768 pass0) = \<lparr>rt_width = 512, rt_height = 384\<rparr>
   \<and> blurHorizontalHalfRenderTarget (setSize 1024 768 pass0) = \<lparr>rt_width = 256, rt_height = 192\<rparr>"
  using setSize_dimensions [of 1024 768 pass0] by (simp add: Math_round_def)

text \<open>
  Claim C1 as it is stated fails at the canvas of 5 by 5 pixels: the half-resolution
  target is 2 wide, the rounded half of the rounded half, and not \<open>round (5 / 4) = 1\<close>.
\<close>

theorem setSize_half_target_not_quarter:
  "rt_width (blurHorizontalHalfRenderTarget (setSize 5 5 pass0)) = 2
   \<and> Math_round (5 / 4) = 1
   \<and> rt_width (blurHorizontalHalfRenderTarget (setSize 5 5 pass0)) \<noteq> Math_round (5 / 4)"
  by (simp add: setSize_fields rt_setSize_def Math_round_def)

text \<open>
  Claim C8, as amended. \<^verbatim>\<open>setSize\<close> does not reject a width or a height that is zero or
  negative: it resizes the mask target to \<open>(w, h)\<close> and the full-resolution horizontal
  blur target and texel size to the rounded halves as for any other input, so that the
  degenerate dimension reaches the blur target too.
\<close>

theorem setSize_degenerate:
  assumes "w \<le> 0 \<or> h \<le> 0"
  shows "maskRenderTarget (setSize w h p) = \<lparr>rt_width = w, rt_height = h\<rparr>
    \<and> blurHorizontalRenderTarget (setSize w h p) =
         \<lparr>rt_width = Math_round (w / 2), rt_height = Math_round (h / 2)\<rparr>
    \<and> texSize (blurMaterial (setSize w h p)) = (Math_round (w / 2), Math_round (h / 2))
    \<and> (Math_round (w / 2) \<le> 0 \<or> Math_round (h / 2) \<le> 0)"
  using assms by (auto simp add: setSize_fields rt_setSize_def Math_round_nonpos)

theorem setSize_degenerate_witness:
  "((0::real) \<le> 0 \<or> (-3::real) \<le> 0)
   \<and> maskRenderTarget (setSize 0 (-3) pass0) = \<lparr>rt_width = 0, rt_height = -3\<rparr>
   \<and> texSize (blurMaterial (setSize 0 (-3) pass0)) = (0, -1)"
  using setSize_degenerate [of 0 "-3" pass0] by (simp add: Math_round_def)

text \<open>
  Claim C8 as it is stated fails at \<^verbatim>\<open>setSize(0, 0)\<close> on the pass of the 800 by 600
  canvas: the mask target and the texel size of the blur change.
\<close>

theorem setSize_zero_not_noop:
  "maskRenderTarget pass0 = \<lparr>rt_width = 800, rt_height = 600\<rparr>
   \<and> maskRenderTarget (setSize 0 0 pass0) = \<lparr>rt_width = 0, rt_height = 0\<rparr>
   \<and> texSize (blurMaterial pass0) = (400, 300)
   \<and> texSize (blurMaterial (setSize 0 0 pass0)) = (0, 0)
   \<and> setSize 0 0 pass0 \<noteq> pass0"
proof -
  have a: "maskRenderTarget pass0 = \<lparr>rt_width = 800, rt_height = 600\<rparr>"
    by (simp add: pass0_defs)
  have b: "maskRenderTarget (setSize 0 0 pass0) = \<lparr>rt_width = 0, rt_height = 0\<rparr>"
    by (simp add: setSize_fields rt_setSize_def a)
  have c: "texSize (blurMaterial pass0) = (400, 300)"
    by (simp add: pass0_defs)
  have d: "texSize (blurMaterial (setSize 0 0 pass0)) = (0, 0)"
    by (simp add: setSize_fields Math_round_def)
  have "maskRenderTarget (setSize 0 0 pass0) \<noteq> maskRenderTarget pass0"
    by (simp add: a b)
  then have "setSize 0 0 pass0 \<noteq> pass0" by auto
  with a b c d show ?thesis by simp
qed

section \<open>Options\<close>

lemma setOptions_fields_sel:
  "edgeThickness (setOptions_fields opts p) = nullish (opt_edgeThickness opts) (edgeThickness p)"
  "edgeGlow (setOptions_fields opts p) =
     nullish (opt_edgeGlow opts) (nullish (opt_edgeThickness opts) (edgeThickness p))"
  "startU (setOptions_fields opts p) = nullish (opt_startU opts) (startU p)"
  "tileCount (setOptions_fields opts p) = nullish (opt_tileCount opts) (tileCount p)"
  "animateOutline (setOptions_fields opts p) = nullish (opt_animateOutline opts) (animateOutline p)"
  "interval (setOptions_fields opts p) =
     (case opt_animationInterval opts of None \<Rightarrow> interval p
      | Some ms \<Rightarrow> round_double (ms / 1000))"
  by (simp_all add: setOptions_fields_def Let_def split: option.split)

lemma setOptions_sel:
  "edgeThickness (setOptions opts p) = edgeThickness (setOptions_fields opts p)"
  "edgeGlow (setOptions opts p) = edgeGlow (setOptions_fields opts p)"
  "startU (setOptions opts p) = startU (setOptions_fields opts p)"
  "tileCount (setOptions opts p) = tileCount (setOptions_fields opts p)"
  "animateOutline (setOptions opts p) = animateOutline (setOptions_fields opts p)"
  "interval (setOptions opts p) = interval (setOptions_fields opts p)"
  by (simp_all add: setOptions_def Let_def)

text \<open>
  Claim C10. When \<^verbatim>\<open>options.edgeGlow\<close> is undefined, \<^verbatim>\<open>setOptions(options)\<close> sets
  \<^verbatim>\<open>edgeGlow\<close> to the \<^verbatim>\<open>edgeThickness\<close> in effect after \<^verbatim>\<open>options.edgeThickness\<close> has
  been applied, and does not keep the previous \<^verbatim>\<open>edgeGlow\<close>; every other field that
  the options leave out (\<^verbatim>\<open>edgeThickness\<close>, \<^verbatim>\<open>startU\<close>, \<^verbatim>\<open>tileCount\<close>,
  \<^verbatim>\<open>animateOutline\<close>, the interval) keeps its previous value.
\<close>

theorem setOptions_edgeGlow_default:
  assumes "opt_edgeGlow opts = None"
  shows "edgeThickness (setOptions opts p) = nullish (opt_edgeThickness opts) (edgeThickness p)
    \<and> edgeGlow (setOptions opts p) = edgeThickness (setOptions opts p)
    \<and> (opt_edgeThickness opts = None \<longrightarrow> edgeThickness (setOptions opts p) = edgeThickness p)
    \<and> (opt_startU opts = None \<longrightarrow> startU (setOptions opts p) = startU p)
    \<and> (opt_tileCount opts = None \<longrightarrow> tileCount (setOptions opts p) = tileCount p)
    \<and> (opt_animateOutline opts = None \<longrightarrow> animateOutline (setOptions opts p) = animateOutline p)
    \<and> (opt_animationInterval opts = None \<longrightarrow> interval (setOptions opts p) = interval p)"
  using assms by (simp add: setOptions_sel setOptions_fields_sel nullish_def)

theorem setOptions_edgeGlow_default_witness:
  "opt_edgeGlow (no_options\<lparr>opt_edgeThickness := Some 3\<rparr>) = None
   \<and> edgeGlow pass0 = 1
   \<and> edgeGlow (setOptions (no_options\<lparr>opt_edgeThickness := Some 3\<rparr>) pass0) = 3
   \<and> startU (setOptions (no_options\<lparr>opt_edgeThickness := Some 3\<rparr>) pass0) = startU pass0"
  using setOptions_edgeGlow_default [of "no_options\<lparr>opt_edgeThickness := Some 3\<rparr>" pass0]
  by (simp add: pass0_defs)

section \<open>Rendering a frame\<close>

lemma shouldRenderOutline_elapsed:
  "shouldRenderOutline (p\<lparr>elapsed := e\<rparr>) = shouldRenderOutline p"
  by (simp add: shouldRenderOutline_def)

lemma renderOutline_idle:
  "\<not> shouldRenderOutline p \<Longrightarrow> renderOutline r rb p = (r, p)"
  by (simp add: renderOutline_def)

lemma renderOutline_renderer:
  "autoClear (fst (renderOutline r rb p)) = autoClear r"
  "clearColor (fst (renderOutline r rb p)) = clearColor r"
  "clearAlpha (fst (renderOutline r rb p)) = clearAlpha r"
  by (simp_all add: renderOutline_def Let_def split_def render_steps)

lemma renderOutline_active_camera:
  assumes "shouldRenderOutline p"
  shows "camera_layers (camera (snd (renderOutline r rb p))) = layers_set 0"
    and "overrideMaterial (scene (snd (renderOutline r rb p))) = None"
  using assms by (simp_all add: renderOutline_def Let_def split_def render_steps)

lemma render_renderer:
  "autoClear (fst (render r wb rb dt ma p)) =
     autoClear (fst (renderOutline r rb (p\<lparr>elapsed := advance_elapsed dt p\<rparr>)))"
  "clearColor (fst (render r wb rb dt ma p)) =
     clearColor (fst (renderOutline r rb (p\<lparr>elapsed := advance_elapsed dt p\<rparr>)))"
  "clearAlpha (fst (render r wb rb dt ma p)) =
     clearAlpha (fst (renderOutline r rb (p\<lparr>elapsed := advance_elapsed dt p\<rparr>)))"
  by (simp_all add: render_def Let_def split_def fsQuad_render_def setRenderTarget_def)

lemma render_camera_scene:
  "camera (snd (render r wb rb dt ma p)) =
     camera (snd (renderOutline r rb (p\<lparr>elapsed := advance_elapsed dt p\<rparr>)))"
  "scene (snd (render r wb rb dt ma p)) =
     scene (snd (renderOutline r rb (p\<lparr>elapsed := advance_elapsed dt p\<rparr>)))"
  by (simp_all add: render_def Let_def split_def)

text \<open>
  Claim C2. When no object is hovered and none is selected, \<^verbatim>\<open>shouldRenderOutline()\<close>
  is false and \<^verbatim>\<open>render()\<close> asks the renderer for nothing but the copy to the screen,
  and for that only when \<^verbatim>\<open>renderToScreen\<close> is set: no clear, no draw of the scene and
  no draw of the full-screen quad goes into the mask target or a blur target.
\<close>

theorem render_idle_draws_nothing:
  assumes "hoveredObject (selectedProductHighlighter p) = None"
      and "selectedObject (selectedProductHighlighter p) = None"
  shows "\<not> shouldRenderOutline p
    \<and> calls (fst (render r wb rb dt ma p)) =
        calls r @ (if renderToScreen p then [QuadRender None (Some MaterialCopy)] else [])"
proof -
  have idle: "\<not> shouldRenderOutline p"
    using assms by (simp add: shouldRenderOutline_def isAnyProductHighlighted_def)
  then have "renderOutline r rb (p\<lparr>elapsed := advance_elapsed dt p\<rparr>) =
      (r, p\<lparr>elapsed := advance_elapsed dt p\<rparr>)"
    by (simp add: renderOutline_idle shouldRenderOutline_elapsed)
  then have "calls (fst (render r wb rb dt ma p)) =
      calls r @ (if renderToScreen p then [QuadRender None (Some MaterialCopy)] else [])"
    by (simp add: render_def Let_def fsQuad_render_def setRenderTarget_def)
  with idle show ?thesis by simp
qed

theorem render_idle_draws_nothing_witness:
  "hoveredObject (selectedProductHighlighter (pass0\<lparr>renderToScreen := True\<rparr>)) = None
   \<and> selectedObject (selectedProductHighlighter (pass0\<lparr>renderToScreen := True\<rparr>)) = None
   \<and> calls (fst (render renderer0 (HostRT 0) (HostRT 1) (1 / 60) False
        (pass0\<lparr>renderToScreen := True\<rparr>))) = [QuadRender None (Some MaterialCopy)]"
  using render_idle_draws_nothing [of "pass0\<lparr>renderToScreen := True\<rparr>" renderer0
      "HostRT 0" "HostRT 1" "1 / 60" False]
  by (simp add: pass0_defs renderer0_def)

text \<open>
  Claim C7, as amended. After every call of \<^verbatim>\<open>render()\<close> the clear colour, the clear
  alpha and the auto-clear flag of the renderer are what they were at entry. When
  something is highlighted the call leaves the layer mask of the camera at layer 0 and
  the override material of the scene cleared; on the idle path, when nothing is
  highlighted, it leaves the camera and the scene as they were at entry.
\<close>

theorem render_restores_renderer_state:
  "autoClear (fst (render r wb rb dt ma p)) = autoClear r
   \<and> clearColor (fst (render r wb rb dt ma p)) = clearColor r
   \<and> clearAlpha (fst (render r wb rb dt ma p)) = clearAlpha r
   \<and> (if shouldRenderOutline p
      then camera_layers (camera (snd (render r wb rb dt ma p))) = layers_set 0
         \<and> overrideMaterial (scene (snd (render r wb rb dt ma p))) = None
      else camera (snd (render r wb rb dt ma p)) = camera p
         \<and> scene (snd (render r wb rb dt ma p)) = scene p)"
proof (cases "shouldRenderOutline p")
  case True
  then show ?thesis
    by (simp add: render_renderer renderOutline_renderer render_camera_scene
          renderOutline_active_camera shouldRenderOutline_elapsed)
next
  case False
  then show ?thesis
    by (simp add: render_renderer renderOutline_renderer render_camera_scene
          renderOutline_idle shouldRenderOutline_elapsed)
qed

text \<open>
  Claim C7 as it is stated fails on the idle path: with nothing highlighted and a camera
  that sees the layers 0 and 2 (mask 5) at entry, the mask is 5 after the call and not
  that of layer 0.
\<close>

theorem render_idle_keeps_camera_layers:
  "\<not> shouldRenderOutline (pass0\<lparr>camera := \<lparr>camera_layers = 5\<rparr>\<rparr>)
   \<and> camera_layers (camera (snd (render renderer0 (HostRT 0) (HostRT 1) (1 / 60) False
        (pass0\<lparr>camera := \<lparr>camera_layers = 5\<rparr>\<rparr>)))) = 5
   \<and> layers_set 0 = 1
   \<and> camera_layers (camera (snd (render renderer0 (HostRT 0) (HostRT 1) (1 / 60) False
        (pass0\<lparr>camera := \<lparr>camera_layers = 5\<rparr>\<rparr>)))) \<noteq> layers_set 0"
  by (simp add: render_camera_scene renderOutline_idle shouldRenderOutline_def
        isAnyProductHighlighted_def pass0_defs layers_set_def)

section \<open>The animation clock\<close>

lemmas fl_eval = fl_def round_double_def round_half_even_def pow2_def exponent_def
  bit_length.simps js_add_def js_mul_def js_div_def js_rem_def js_trunc_def

lemma pow2_pos: "0 < pow2 e"
  by (simp add: pow2_def)

text \<open>The exponent is the binary exponent.\<close>

lemma bit_length_bounds:
  "0 < n \<Longrightarrow> 2 ^ (bit_length n - 1) \<le> n \<and> n < 2 ^ bit_length n"
proof (induction n rule: bit_length.induct)
  case (1 n)
  show ?case
  proof (cases "n div 2 = 0")
    case True
    then have "n = 1" using "1.prems" by linarith
    then show ?thesis by (simp add: bit_length.simps)
  next
    case False
    then have ih: "2 ^ (bit_length (n div 2) - 1) \<le> n div 2" "n div 2 < 2 ^ bit_length (n div 2)"
      using "1.IH" "1.prems" by simp_all
    have pos: "0 < bit_length (n div 2)"
      using False by (simp add: bit_length.simps)
    have bl: "bit_length n = Suc (bit_length (n div 2))"
      using "1.prems" by (subst bit_length.simps) simp
    have "(2::nat) ^ bit_length (n div 2) = 2 * 2 ^ (bit_length (n div 2) - 1)"
      using pos by (cases "bit_length (n div 2)") simp_all
    then have lo: "2 ^ bit_length (n div 2) \<le> n"
      using ih(1) by linarith
    have hi: "n < 2 * 2 ^ bit_length (n div 2)"
      using ih(2) by linarith
    show ?thesis using lo hi by (simp add: bl)
  qed
qed

lemma pow2_nat: "pow2 (int k) = 2 ^ k"
  by (simp add: pow2_def)

lemma pow2_neg: "pow2 (- int k) = 1 / 2 ^ k"
  by (simp add: pow2_def)

lemma real_pow2_le:
  assumes "(2::nat) ^ a \<le> n"
  shows "(2::real) ^ a \<le> real n"
proof -
  have "real (2 ^ a) \<le> real n" using assms by (simp only: of_nat_le_iff)
  then show ?thesis by simp
qed

lemma real_less_pow2:
  assumes "n < (2::nat) ^ a"
  shows "real n + 1 \<le> (2::real) ^ a"
proof -
  have "Suc n \<le> 2 ^ a" using assms by simp
  then have "real (Suc n) \<le> real (2 ^ a)" by (simp only: of_nat_le_iff)
  then show ?thesis by simp
qed

lemma exponent_bounds:
  assumes "x \<noteq> 0"
  shows "pow2 (exponent x) \<le> \<bar>x\<bar> \<and> \<bar>x\<bar> < pow2 (exponent x + 1)"
proof (cases "1 \<le> \<bar>x\<bar>")
  case True
  define n where "n = nat \<lfloor>\<bar>x\<bar>\<rfloor>"
  define k where "k = bit_length n"
  have n: "0 < n" "real n \<le> \<bar>x\<bar>" "\<bar>x\<bar> < real n + 1"
    using True unfolding n_def by linarith+
  have b: "2 ^ (k - 1) \<le> n" "n < 2 ^ k"
    using bit_length_bounds [OF n(1)] unfolding k_def by simp_all
  have kpos: "0 < k"
    using b(2) n(1) by (cases k) simp_all
  have e: "exponent x = int (k - 1)"
    using True kpos by (simp add: exponent_def n_def k_def)
  have e1: "exponent x + 1 = int k"
    using kpos by (simp add: e)
  have "(2::real) ^ (k - 1) \<le> \<bar>x\<bar>"
    using real_pow2_le [OF b(1)] n(2) by linarith
  moreover have "\<bar>x\<bar> < (2::real) ^ k"
    using real_less_pow2 [OF b(2)] n(3) by linarith
  ultimately show ?thesis
    unfolding e1 unfolding e by (simp only: pow2_nat)
next
  case False
  define y where "y = 1 / \<bar>x\<bar>"
  define m where "m = nat (\<lceil>y\<rceil> - 1)"
  define k where "k = bit_length m"
  have y: "1 < y" "\<bar>x\<bar> = 1 / y" "0 < \<bar>x\<bar>"
    using False assms by (simp_all add: y_def)
  have m: "0 < m" "real m < y" "y \<le> real m + 1"
    using y(1) unfolding m_def by linarith+
  have b: "2 ^ (k - 1) \<le> m" "m < 2 ^ k"
    using bit_length_bounds [OF m(1)] unfolding k_def by simp_all
  have kpos: "0 < k"
    using b(2) m(1) by (cases k) simp_all
  have e: "exponent x = - int k"
    using False by (simp add: exponent_def k_def m_def y_def)
  have e1: "exponent x + 1 = - int (k - 1)"
    using kpos by (simp add: e)
  have "y \<le> 2 ^ k"
    using real_less_pow2 [OF b(2)] m(3) by linarith
  then have lo: "1 / 2 ^ k \<le> \<bar>x\<bar>"
    using y(1) unfolding y(2) by (simp add: field_simps)
  have "2 ^ (k - 1) < y"
    using real_pow2_le [OF b(1)] m(2) by linarith
  then have hi: "\<bar>x\<bar> < 1 / 2 ^ (k - 1)"
    using y(1) unfolding y(2) by (simp add: field_simps)
  show ?thesis
    unfolding e1 unfolding e using lo hi by (simp only: pow2_neg)
qed

lemma round_half_even_near: "\<bar>of_int (round_half_even m) - m\<bar> \<le> 1 / 2"
proof -
  have "of_int \<lfloor>m\<rfloor> \<le> m" "m < of_int \<lfloor>m\<rfloor> + 1" by linarith+
  then show ?thesis
    by (auto simp add: round_half_even_def Let_def)
qed

lemma abs_scale:
  assumes "0 < (u::real)"
  shows "\<bar>a - x / u\<bar> * u = \<bar>a * u - x\<bar>"
proof -
  have "(a - x / u) * u = a * u - x"
    using assms by (simp add: field_simps)
  then have "\<bar>a * u - x\<bar> = \<bar>a - x / u\<bar> * \<bar>u\<bar>"
    by (simp only: abs_mult [symmetric])
  then show ?thesis using assms by simp
qed

text \<open>Rounding moves a real by half a unit in the last place at most.\<close>

lemma round_double_near:
  "\<bar>round_double x - x\<bar> \<le> pow2 (max (exponent x) (- 1022) - 52) / 2"
proof -
  let ?u = "pow2 (max (exponent x) (- 1022) - 52)"
  have u: "0 < ?u" by (rule pow2_pos)
  have "\<bar>of_int (round_half_even (x / ?u)) - x / ?u\<bar> \<le> 1 / 2"
    by (rule round_half_even_near)
  then have "\<bar>of_int (round_half_even (x / ?u)) - x / ?u\<bar> * ?u \<le> 1 / 2 * ?u"
    using u by (intro mult_right_mono) simp_all
  moreover have "\<bar>of_int (round_half_even (x / ?u)) - x / ?u\<bar> * ?u =
      \<bar>of_int (round_half_even (x / ?u)) * ?u - x\<bar>"
    using u by (rule abs_scale)
  ultimately show ?thesis
    by (simp add: round_double_def Let_def)
qed




lemma js_rem_nonneg:
  assumes "0 \<le> a" and "0 < b"
  shows "js_rem a b = Some (a - b * of_int \<lfloor>a / b\<rfloor>)"
  using assms by (simp add: js_rem_def js_trunc_def)


lemma js_rem_small:
  assumes "0 \<le> a" and "a < b"
  shows "js_rem a b = Some a"
proof -
  have "\<lfloor>a / b\<rfloor> = 0" using assms by (simp add: floor_eq_iff)
  then show ?thesis using assms by (simp add: js_rem_nonneg)
qed


lemma render_params:
  "interval (snd (render r wb rb dt ma p)) = interval p"
  "startU (snd (render r wb rb dt ma p)) = startU p"
  "tileCount (snd (render r wb rb dt ma p)) = tileCount p"
  "animateOutline (snd (render r wb rb dt ma p)) = animateOutline p"
  "elapsed (snd (render r wb rb dt ma p)) = advance_elapsed dt p"
  by (simp_all add: render_def renderOutline_def Let_def split_def
        renderMaskTexture_def renderBlurTexture_def renderBlurHalfTexture_def)

lemma scroll_offset_cong:
  assumes "elapsed p = elapsed q" and "interval p = interval q"
      and "startU p = startU q" and "tileCount p = tileCount q"
  shows "scroll_offset p = scroll_offset q"
  unfolding scroll_offset_def assms ..


lemma render_active_startU:
  assumes "shouldRenderOutline p" and "animateOutline p"
  shows "u_startU (outlineMaterial (snd (render r wb rb dt ma p))) =
           scroll_offset (p\<lparr>elapsed := advance_elapsed dt p\<rparr>)"
  using assms
  by (simp add: render_def renderOutline_def Let_def split_def shouldRenderOutline_def
        renderMaskTexture_def renderBlurTexture_def renderBlurHalfTexture_def)
     (rule scroll_offset_cong; simp)






text \<open>The scroll offset and the step of the clock, from the fields they read.\<close>

lemma scroll_offset_at:
  assumes "elapsed p = Some e"
  shows "scroll_offset p =
     (case js_div e (interval p) of
        None \<Rightarrow> None
      | Some progress \<Rightarrow>
          (case js_mul (tileCount p) progress of
             None \<Rightarrow> None
           | Some scrolled \<Rightarrow> js_add (startU p) scrolled))"
  using assms by (simp add: scroll_offset_def)

lemma advance_elapsed_at:
  assumes "elapsed p = Some e"
  shows "advance_elapsed dt p =
     (case js_add e dt of None \<Rightarrow> None | Some s \<Rightarrow> js_rem s (interval p))"
  using assms by (simp add: advance_elapsed_def)

text \<open>The doubles that the runs below meet.\<close>

lemma fl_values:
  "fl 1 = Some 1"
  "fl 10 = Some 10"
  "fl 15 = Some 15"
  "fl 30 = Some 30"
  "fl 60 = Some 60"
  "fl (1 / 2) = Some (1 / 2)"
  "fl 0 = Some 0"
  by (simp_all add: fl_eval Let_def)











text \<open>
  An interval of 100 ms is the double nearest to 0.1 s, and a frame of 0.5 s from 0 leaves
  \<^verbatim>\<open>elapsed\<close> a unit in the last place below that interval and the uniform at
  \<open>1 - 2 ^ (- 52)\<close>.
\<close>

lemma pass_100ms_fields:
  "animateOutline pass_100ms" "interval pass_100ms = 3602879701896397 / 2 ^ 55"
  "elapsed pass_100ms = Some 0" "tileCount pass_100ms = 1" "startU pass_100ms = 0"
  by (simp_all add: pass_100ms_def setOptions_def pass0_defs fl_eval)

lemma frame_100ms:
  "elapsed (snd (render renderer0 (HostRT 0) (HostRT 1) (1 / 2) False
      (pass_100ms\<lparr>selectedProductHighlighter := hovering\<rparr>))) = Some (3602879701896396 / 2 ^ 55)"
  "u_startU (outlineMaterial (snd (render renderer0 (HostRT 0) (HostRT 1) (1 / 2) False
      (pass_100ms\<lparr>selectedProductHighlighter := hovering\<rparr>)))) = Some (1 - 1 / 2 ^ 52)"
proof -
  let ?p = "pass_100ms\<lparr>selectedProductHighlighter := hovering\<rparr>"
  have f: "elapsed ?p = Some 0" "interval ?p = 3602879701896397 / 2 ^ 55" "tileCount ?p = 1"
    "startU ?p = 0" "animateOutline ?p" "shouldRenderOutline ?p"
    by (simp_all add: pass_100ms_fields shouldRenderOutline_def hovering_highlighted)
  have a: "advance_elapsed (1 / 2) ?p = Some (3602879701896396 / 2 ^ 55)"
    unfolding advance_elapsed_at [OF f(1)] f by (simp add: fl_eval Let_def)
  then show "elapsed (snd (render renderer0 (HostRT 0) (HostRT 1) (1 / 2) False ?p)) =
      Some (3602879701896396 / 2 ^ 55)"
    by (simp only: render_params)
  let ?p1 = "?p\<lparr>elapsed := advance_elapsed (1 / 2) ?p\<rparr>"
  have g: "elapsed ?p1 = Some (3602879701896396 / 2 ^ 55)" "interval ?p1 = 3602879701896397 / 2 ^ 55"
    "tileCount ?p1 = 1" "startU ?p1 = 0"
    using a f by simp_all
  have "u_startU (outlineMaterial (snd (render renderer0 (HostRT 0) (HostRT 1) (1 / 2) False ?p))) =
      scroll_offset ?p1"
    using f(6,5) by (rule render_active_startU)
  also have "\<dots> = Some (1 - 1 / 2 ^ 52)"
    unfolding scroll_offset_at [OF g(1)] g(2-4) by (simp add: fl_eval Let_def)
  finally show "u_startU (outlineMaterial (snd (render renderer0 (HostRT 0) (HostRT 1) (1 / 2) False ?p))) =
      Some (1 - 1 / 2 ^ 52)" .
qed

text \<open>
  \<^verbatim>\<open>render()\<close> advances the clock whether the animation is on or off: from 0, by a
  \<^verbatim>\<open>deltaTime\<close> that is a double within the interval.
\<close>

lemma render_elapsed_static:
  assumes "\<not> animateOutline p" and "elapsed p = Some 0" and "0 \<le> dt" and "dt < interval p"
      and "fl dt = Some dt"
  shows "elapsed (snd (render r wb rb dt ma p)) = Some dt"
  using assms by (simp add: render_params advance_elapsed_at js_add_def js_rem_small)

text \<open>
  Claim C4. The animation is turned off on the pass of the 800 by 600 canvas, which
  sets \<^verbatim>\<open>elapsed\<close> to 0; one call of \<^verbatim>\<open>render()\<close> with a \<^verbatim>\<open>deltaTime\<close> of 1 s then
  leaves \<^verbatim>\<open>elapsed\<close> at 1 with the animation still off, while the \<^verbatim>\<open>startU\<close> uniform
  keeps the configured value.
\<close>

theorem render_advances_elapsed_while_static:
  "\<not> animateOutline pass_static
   \<and> elapsed pass_static = Some 0
   \<and> \<not> animateOutline (snd (render renderer0 (HostRT 0) (HostRT 1) 1 False pass_static))
   \<and> elapsed (snd (render renderer0 (HostRT 0) (HostRT 1) 1 False pass_static)) = Some 1
   \<and> u_startU (outlineMaterial (snd (render renderer0 (HostRT 0) (HostRT 1) 1 False pass_static))) =
       Some (startU pass_static)"
  by (simp add: pass_static_def setOptions_def render_def renderOutline_def shouldRenderOutline_def
        isAnyProductHighlighted_def advance_elapsed_def fl_eval pass0_defs)

section \<open>The tracker\<close>

text \<open>Updates of layer masks leave the selection, the hover and the siblings alone.\<close>

lemma update_layers_sel:
  "hoveredObject (update_layers f x h) = hoveredObject h"
  "selectedObject (update_layers f x h) = selectedObject h"
  "related (objects (update_layers f x h) ob) = related (objects h ob)"
  by (simp_all add: update_layers_def)

lemma fold_update_layers_sel:
  "hoveredObject (fold (update_layers f) xs h) = hoveredObject h"
  "selectedObject (fold (update_layers f) xs h) = selectedObject h"
  "related (objects (fold (update_layers f) xs h) ob) = related (objects h ob)"
  by (induction xs arbitrary: h) (simp_all add: update_layers_sel)

lemma update_layers_bit:
  assumes "\<And>m. bit (f m) n \<Longrightarrow> bit m n"
      and "bit (layers (objects (update_layers f x h) ob)) n"
  shows "bit (layers (objects h ob)) n"
  using assms by (cases "ob = x") (simp_all add: update_layers_def)

lemma fold_update_layers_bit:
  assumes "\<And>m. bit (f m) n \<Longrightarrow> bit m n"
      and "bit (layers (objects (fold (update_layers f) xs h) ob)) n"
  shows "bit (layers (objects h ob)) n"
  using assms(2)
proof (induction xs arbitrary: h)
  case Nil
  then show ?case by simp
next
  case (Cons x xs)
  then have "bit (layers (objects (update_layers f x h) ob)) n" by simp
  then show ?case using assms(1) by (rule update_layers_bit [rotated])
qed

lemma disable_keeps_unset: "bit (layers_disable c m) n \<Longrightarrow> bit m n"
  by (simp add: layers_disable_def bit_simps)

lemma enable2_keeps_unset1: "bit (layers_enable 2 m) 1 \<Longrightarrow> bit m 1"
  by (simp add: layers_enable_def bit_simps)

lemma disableLayer_sel:
  "hoveredObject (disableLayer x c h) = hoveredObject h"
  "selectedObject (disableLayer x c h) = selectedObject h"
  "related (objects (disableLayer x c h) ob) = related (objects h ob)"
  by (simp_all add: disableLayer_def Let_def update_layers_sel fold_update_layers_sel
        split: option.split)

lemma enableLayer_sel:
  "hoveredObject (enableLayer x c h) = hoveredObject h"
  "selectedObject (enableLayer x c h) = selectedObject h"
  "related (objects (enableLayer x c h) ob) = related (objects h ob)"
  by (simp_all add: enableLayer_def Let_def update_layers_sel fold_update_layers_sel
        split: option.split)

lemma disableLayer_bit:
  assumes "bit (layers (objects (disableLayer x c h) ob)) n"
  shows "bit (layers (objects h ob)) n"
proof (cases "related (objects h x)")
  case None
  then have "bit (layers (objects (update_layers (layers_disable c) x h) ob)) n"
    using assms by (simp add: disableLayer_def Let_def update_layers_sel)
  then show ?thesis
    by (rule update_layers_bit [rotated]) (rule disable_keeps_unset)
next
  case (Some siblings)
  then have "bit (layers (objects (fold (update_layers (layers_disable c)) siblings
      (update_layers (layers_disable c) x h)) ob)) n"
    using assms by (simp add: disableLayer_def Let_def update_layers_sel)
  then have "bit (layers (objects (update_layers (layers_disable c) x h) ob)) n"
    by (rule fold_update_layers_bit [rotated]) (rule disable_keeps_unset)
  then show ?thesis
    by (rule update_layers_bit [rotated]) (rule disable_keeps_unset)
qed

lemma enableLayer2_bit1:
  assumes "bit (layers (objects (enableLayer x 2 h) ob)) 1"
  shows "bit (layers (objects h ob)) 1"
proof (cases "related (objects h x)")
  case None
  then have "bit (layers (objects (update_layers (layers_enable 2) x h) ob)) 1"
    using assms by (simp add: enableLayer_def Let_def update_layers_sel)
  then show ?thesis
    by (rule update_layers_bit [rotated]) (rule enable2_keeps_unset1)
next
  case (Some siblings)
  then have "bit (layers (objects (fold (update_layers (layers_enable 2)) siblings
      (update_layers (layers_enable 2) x h)) ob)) 1"
    using assms by (simp add: enableLayer_def Let_def update_layers_sel)
  then have "bit (layers (objects (update_layers (layers_enable 2) x h) ob)) 1"
    by (rule fold_update_layers_bit [rotated]) (rule enable2_keeps_unset1)
  then show ?thesis
    by (rule update_layers_bit [rotated]) (rule enable2_keeps_unset1)
qed

lemma areObjectOrRelatedEqual_sym:
  "areObjectOrRelatedEqual h a b = areObjectOrRelatedEqual h b a"
  by (auto simp add: areObjectOrRelatedEqual_def Let_def list_ex_iff split: option.split)

text \<open>
  While \<open>s\<close> is still the selected object, clearing its selection cannot give the hover
  layer back: the guard of \<^verbatim>\<open>setHoverMaterial\<close> sees \<open>s\<close> selected.
\<close>

lemma clearSelectedMaterial_of_selected:
  assumes "selectedObject h = Some s"
  shows "clearSelectedMaterial s h = disableLayer s 2 h"
proof (cases "hoveredObject h")
  case None
  then show ?thesis
    by (simp add: clearSelectedMaterial_def Let_def disableLayer_sel)
next
  case (Some hov)
  let ?h1 = "disableLayer s 2 h"
  have sel: "selectedObject ?h1 = Some s" using assms by (simp add: disableLayer_sel)
  have "areObjectOrRelatedEqual ?h1 s hov \<Longrightarrow> setHoverMaterial hov ?h1 = ?h1"
    using areObjectOrRelatedEqual_sym [of ?h1 hov s] by (simp add: setHoverMaterial_def sel)
  then show ?thesis
    using Some by (auto simp add: clearSelectedMaterial_def Let_def disableLayer_sel)
qed

lemma setSelectedMaterial_bit1:
  assumes "bit (layers (objects (setSelectedMaterial b h) ob)) 1"
  shows "bit (layers (objects h ob)) 1"
proof -
  let ?h1 = "enableLayer b 2 h"
  have "bit (layers (objects ?h1 ob)) 1"
    using assms disableLayer_bit [of _ 1 ?h1 ob 1]
    by (auto simp add: setSelectedMaterial_def Let_def clearHoverMaterial_def
          split: option.splits if_splits)
  then show ?thesis by (rule enableLayer2_bit1)
qed

lemma object3DSelected_never_enables_hover_layer:
  assumes "bit (layers (objects (object3DSelected b h) ob)) 1"
  shows "bit (layers (objects h ob)) 1"
proof (cases "selectedObject h")
  case None
  then have "bit (layers (objects (setSelectedMaterial b (h\<lparr>selectedObject := Some b\<rparr>)) ob)) 1"
    using assms by (simp add: object3DSelected_def Let_def)
  then have "bit (layers (objects (h\<lparr>selectedObject := Some b\<rparr>) ob)) 1"
    by (rule setSelectedMaterial_bit1)
  then show ?thesis by simp
next
  case (Some s)
  then have "object3DSelected b h =
      setSelectedMaterial b ((disableLayer s 2 h)\<lparr>selectedObject := Some b\<rparr>)"
    by (simp add: object3DSelected_def Let_def clearSelectedMaterial_of_selected)
  then have "bit (layers (objects (setSelectedMaterial b
      ((disableLayer s 2 h)\<lparr>selectedObject := Some b\<rparr>)) ob)) 1"
    using assms by simp
  then have "bit (layers (objects ((disableLayer s 2 h)\<lparr>selectedObject := Some b\<rparr>) ob)) 1"
    by (rule setSelectedMaterial_bit1)
  then have "bit (layers (objects (disableLayer s 2 h) ob)) 1" by simp
  then show ?thesis by (rule disableLayer_bit)
qed

text \<open>
  Claim C5. The pointer enters object 0, object 0 is selected, then object 1 is
  selected while the pointer is still on object 0. The tracker takes layer 2 from object
  0, but it does not give layer 1 back to it: object 0, still hovered, is left on layer 0
  alone. Deselecting object 0 instead gives layer 1 back.
\<close>

theorem select_other_loses_hover:
  "hoveredObject (object3DSelected 1 (object3DSelected 0 (object3DPointerEnter 0 new_highlighter))) = Some 0
   \<and> selectedObject (object3DSelected 1 (object3DSelected 0 (object3DPointerEnter 0 new_highlighter))) = Some 1
   \<and> layers (objects (object3DSelected 0 (object3DPointerEnter 0 new_highlighter)) 0) = 5
   \<and> layers (objects (object3DSelected 1 (object3DSelected 0 (object3DPointerEnter 0 new_highlighter))) 0) = 1
   \<and> \<not> bit (layers (objects (object3DSelected 1 (object3DSelected 0 (object3DPointerEnter 0 new_highlighter))) 0)) 1
   \<and> layers (objects (object3DSelected 1 (object3DSelected 0 (object3DPointerEnter 0 new_highlighter))) 1) = 5
   \<and> bit (layers (objects (object3DDeselected 0 (object3DSelected 0 (object3DPointerEnter 0 new_highlighter))) 0)) 1"
  by (simp add: highlighter_defs)

section \<open>The textures of the channels\<close>

text \<open>
  Given an image while the channel holds a render target, \<^verbatim>\<open>setTextureTexture\<close> binds a
  new texture and leaves it without an image.
\<close>

lemma setTextureTexture_after_target:
  assumes "get_key key p = IsRenderTarget n"
  shows "get_key key (setTextureTexture key img p) = IsTexture (next_texture p)"
    and "get_uniform key (setTextureTexture key img p) = TextureObj (next_texture p)"
    and "tex_image (textures (setTextureTexture key img p) (next_texture p)) = None"
  using assms
  by (cases key; simp add: setTextureTexture_def createAndSetTexture_def createNewTexture_def
        get_key_def set_key_def get_uniform_def set_uniform_def)+

text \<open>
  Claim C6. The hover channel is given an image, then a render target, then a canvas.
  After the first switch the uniform is the texture of the render target. After the
  switch back the uniform is a new texture, and that texture has no image: the canvas
  that was supplied is not in it.
\<close>

theorem image_after_target_has_no_image:
  "hoverTexture pass_image = IsTexture 0
   \<and> u_hoverTexture (outlineMaterial pass_image) = TextureObj 0
   \<and> tex_image (textures pass_image 0) = Some image_A
   \<and> hoverTexture pass_target = IsRenderTarget 7
   \<and> u_hoverTexture (outlineMaterial pass_target) = TargetTexture (HostRT 7)
   \<and> hoverTexture pass_image_again = IsTexture 2
   \<and> u_hoverTexture (outlineMaterial pass_image_again) = TextureObj 2
   \<and> tex_image (textures pass_image_again 2) = None
   \<and> tex_image (textures pass_image_again 2) \<noteq> Some canvas_B"
  by (simp add: pass_image_again_def pass_target_def pass_image_def texture_defs pass0_defs)

end
